theory Spec2Isabelle
  imports Main "HOL-Library.Word" "HOL-Library.AList"
begin

unbundle bit_operations_syntax

section \<open>Python values\<close>

text \<open>
  The payloads the caches store and the paper dictionaries the analyzer reads are
  Python values built from \<open>None\<close>, booleans, integers, strings, lists and
  dictionaries with string keys. A Python \<open>str\<close> is modelled by the bytes of its
  UTF-8 encoding, a dictionary by an association list in insertion order.
\<close>

datatype json =
    JNull
  | JBool bool
  | JInt int
  | JStr string
  | JList "json list"
  | JDict "(string \<times> json) list"

text \<open>Python's truth value of an object, as \<open>if cached:\<close> and \<open>not papers\<close> test it.\<close>

fun truthy :: "json \<Rightarrow> bool" where
  "truthy JNull = False"
| "truthy (JBool b) = b"
| "truthy (JInt i) = (i \<noteq> 0)"
| "truthy (JStr s) = (s \<noteq> [])"
| "truthy (JList xs) = (xs \<noteq> [])"
| "truthy (JDict kvs) = (kvs \<noteq> [])"

text \<open>\<open>d.get(k, default)\<close> on a dictionary.\<close>

definition dict_get :: "(string \<times> json) list \<Rightarrow> string \<Rightarrow> json \<Rightarrow> json" where
  "dict_get d k dflt = (case map_of d k of None \<Rightarrow> dflt | Some v \<Rightarrow> v)"

text \<open>\<open>d[k] = v\<close>: an existing key keeps its position, a new key goes to the end.\<close>

definition dict_set :: "(string \<times> json) list \<Rightarrow> string \<Rightarrow> json \<Rightarrow> (string \<times> json) list" where
  "dict_set d k v = AList.update k v d"

section \<open>Exceptions\<close>

text \<open>
  The exception classes the two modules can meet, each with its message.
  \<open>except Exception\<close> catches all of them; \<open>except json.JSONDecodeError\<close> only the
  first; \<open>except requests.exceptions.RequestException\<close> only \<open>RequestException\<close>.
\<close>

datatype exn =
    JSONDecodeError string
  | UnicodeDecodeError string
  | FileNotFoundError string
  | RequestException string
  | APIError string
  | TypeError string
  | AttributeError string
  | UnboundLocalError string
  | ValueError string
  | RecursionError string
  | OSError string

fun str_exn :: "exn \<Rightarrow> string" where
  "str_exn (JSONDecodeError m) = m"
| "str_exn (UnicodeDecodeError m) = m"
| "str_exn (FileNotFoundError m) = m"
| "str_exn (RequestException m) = m"
| "str_exn (APIError m) = m"
| "str_exn (TypeError m) = m"
| "str_exn (AttributeError m) = m"
| "str_exn (UnboundLocalError m) = m"
| "str_exn (ValueError m) = m"
| "str_exn (RecursionError m) = m"
| "str_exn (OSError m) = m"

section \<open>MD5 (\<open>hashlib.md5(...).hexdigest()\<close>)\<close>

type_synonym w32 = "32 word"

definition rotl32 :: "w32 \<Rightarrow> nat \<Rightarrow> w32" where
  "rotl32 x n = push_bit n x OR drop_bit (32 - n) x"

definition md5_K :: "w32 list" where
  "md5_K =
   [0xd76aa478, 0xe8c7b756, 0x242070db, 0xc1bdceee,
    0xf57c0faf, 0x4787c62a, 0xa8304613, 0xfd469501,
    0x698098d8, 0x8b44f7af, 0xffff5bb1, 0x895cd7be,
    0x6b901122, 0xfd987193, 0xa679438e, 0x49b40821,
    0xf61e2562, 0xc040b340, 0x265e5a51, 0xe9b6c7aa,
    0xd62f105d, 0x02441453, 0xd8a1e681, 0xe7d3fbc8,
    0x21e1cde6, 0xc33707d6, 0xf4d50d87, 0x455a14ed,
    0xa9e3e905, 0xfcefa3f8, 0x676f02d9, 0x8d2a4c8a,
    0xfffa3942, 0x8771f681, 0x6d9d6122, 0xfde5380c,
    0xa4beea44, 0x4bdecfa9, 0xf6bb4b60, 0xbebfbc70,
    0x289b7ec6, 0xeaa127fa, 0xd4ef3085, 0x04881d05,
    0xd9d4d039, 0xe6db99e5, 0x1fa27cf8, 0xc4ac5665,
    0xf4292244, 0x432aff97, 0xab9423a7, 0xfc93a039,
    0x655b59c3, 0x8f0ccc92, 0xffeff47d, 0x85845dd1,
    0x6fa87e4f, 0xfe2ce6e0, 0xa3014314, 0x4e0811a1,
    0xf7537e82, 0xbd3af235, 0x2ad7d2bb, 0xeb86d391]"

definition md5_S :: "nat list" where
  "md5_S =
   [7, 12, 17, 22, 7, 12, 17, 22, 7, 12, 17, 22, 7, 12, 17, 22,
    5, 9, 14, 20, 5, 9, 14, 20, 5, 9, 14, 20, 5, 9, 14, 20,
    4, 11, 16, 23, 4, 11, 16, 23, 4, 11, 16, 23, 4, 11, 16, 23,
    6, 10, 15, 21, 6, 10, 15, 21, 6, 10, 15, 21, 6, 10, 15, 21]"

text \<open>The message with its padding: a \<open>0x80\<close> byte, zeros up to 56 modulo 64, and the
  bit length as a 64-bit little-endian number (its low eight bytes).\<close>

fun le_bytes :: "nat \<Rightarrow> nat \<Rightarrow> nat list" where
  "le_bytes 0 n = []"
| "le_bytes (Suc k) n = n mod 256 # le_bytes k (n div 256)"

definition md5_pad :: "nat list \<Rightarrow> nat list" where
  "md5_pad bs =
     bs @ [128] @ replicate ((119 - length bs mod 64) mod 64) 0
        @ le_bytes 8 (8 * length bs)"

definition le_word :: "nat list \<Rightarrow> w32" where
  "le_word bs = of_nat (foldr (\<lambda>b acc. b + 256 * acc) bs 0)"

fun chunks :: "nat \<Rightarrow> nat \<Rightarrow> 'a list \<Rightarrow> 'a list list" where
  "chunks 0 n xs = []"
| "chunks (Suc k) n xs = take n xs # chunks k n (drop n xs)"

definition md5_words :: "nat list \<Rightarrow> w32 list" where
  "md5_words block = map le_word (chunks 16 4 block)"

text \<open>One of the 64 operations of a block, on the working state \<open>(A, B, C, D)\<close>.\<close>

definition md5_step :: "w32 list \<Rightarrow> w32 \<times> w32 \<times> w32 \<times> w32 \<Rightarrow> nat \<Rightarrow> w32 \<times> w32 \<times> w32 \<times> w32" where
  "md5_step M st i =
     (case st of (A, B, C, D) \<Rightarrow>
       let (F, g) =
             (if i < 16 then ((B AND C) OR (NOT B AND D), i)
              else if i < 32 then ((D AND B) OR (NOT D AND C), (5 * i + 1) mod 16)
              else if i < 48 then (B XOR C XOR D, (3 * i + 5) mod 16)
              else (C XOR (B OR NOT D), (7 * i) mod 16));
           F' = F + A + md5_K ! i + M ! g
       in (D, B + rotl32 F' (md5_S ! i), B, C))"

definition md5_block :: "w32 \<times> w32 \<times> w32 \<times> w32 \<Rightarrow> nat list \<Rightarrow> w32 \<times> w32 \<times> w32 \<times> w32" where
  "md5_block h block =
     (case h of (a0, b0, c0, d0) \<Rightarrow>
        case foldl (md5_step (md5_words block)) h [0..<64] of
          (A, B, C, D) \<Rightarrow> (a0 + A, b0 + B, c0 + C, d0 + D))"

definition md5_init :: "w32 \<times> w32 \<times> w32 \<times> w32" where
  "md5_init = (0x67452301, 0xefcdab89, 0x98badcfe, 0x10325476)"

definition md5_digest :: "nat list \<Rightarrow> nat list" where
  "md5_digest bs =
     (let p = md5_pad bs in
      case foldl md5_block md5_init (chunks (length p div 64) 64 p) of
        (a, b, c, d) \<Rightarrow> concat (map (\<lambda>w. le_bytes 4 (unat w)) [a, b, c, d]))"

definition hex_digit :: "nat \<Rightarrow> char" where
  "hex_digit n = ''0123456789abcdef'' ! (n mod 16)"

definition hex_byte :: "nat \<Rightarrow> string" where
  "hex_byte b = [hex_digit (b div 16), hex_digit b]"

definition md5_hexdigest :: "string \<Rightarrow> string" where
  "md5_hexdigest s = concat (map hex_byte (md5_digest (map (of_char :: char \<Rightarrow> nat) s)))"

section \<open>The collector's fingerprint\<close>

record collector =
  cache_dir :: string
  api_key :: "string option"

text \<open>
  \<^verbatim>\<open>
  def _get_cache_key(self, query, source):
      key_string = f"{source}:{query}"
      return hashlib.md5(key_string.encode()).hexdigest()
  \<close>
\<close>

definition key_string :: "string \<Rightarrow> string \<Rightarrow> string" where
  "key_string source query = source @ '':'' @ query"

definition get_cache_key :: "collector \<Rightarrow> string \<Rightarrow> string \<Rightarrow> string" where
  "get_cache_key self query source = md5_hexdigest (key_string source query)"

section \<open>The file system and the clock\<close>

text \<open>
  A cache file is modelled by what reading it gives: \<open>open(path, 'r', encoding='utf-8')\<close>
  followed by \<open>json.load\<close> either returns the document the file holds (\<open>Doc\<close>, which is
  what \<open>json.dump\<close> wrote), or raises: \<open>JSONDecodeError\<close> on text that is not a JSON
  document (for instance a truncated write), \<open>UnicodeDecodeError\<close> on bytes that are not
  UTF-8 (for instance the single byte \<open>0xFF\<close>), \<open>RecursionError\<close> on text nested too
  deep for the decoder (for instance 200000 opening brackets), \<open>ValueError\<close> on a number
  of more digits than the interpreter converts.
\<close>

datatype content = Doc json | Unreadable exn

record cache_file =
  content :: content
  mtime :: int

text \<open>
  The world the two classes run in: the files by path, the directories that exist
  besides the cache directories, the clock in microseconds (the resolution of
  \<open>datetime\<close>), the log, and the two remote services. A remote service is
  the sequence of its answers, the \<open>n\<close>-th request getting answer \<open>n\<close>, with the number
  of requests made so far. The language model's answer is the \<open>content\<close> of its
  message, which may be \<open>None\<close>.
\<close>

record world =
  files :: "(string \<times> cache_file) list"
  dirs :: "string list"
  clock :: int
  log :: "string list"
  http :: "nat \<Rightarrow> exn + json"
  http_calls :: nat
  llm :: "nat \<Rightarrow> exn + string option"
  llm_calls :: nat

definition logger :: "string \<Rightarrow> world \<Rightarrow> world" where
  "logger msg w = w\<lparr>log := log w @ [msg]\<rparr>"

text \<open>\<open>dir / name\<close> on paths: an absolute name replaces the directory.\<close>

definition path_join :: "string \<Rightarrow> string \<Rightarrow> string" where
  "path_join dir name = (if take 1 name = ''/'' then name else dir @ ''/'' @ name)"

fun json_load :: "content \<Rightarrow> exn + json" where
  "json_load (Doc v) = Inr v"
| "json_load (Unreadable e) = Inl e"

text \<open>The part of a path before its last separator, and the part after it.\<close>

definition parent_of :: "string \<Rightarrow> string" where
  "parent_of path = rev (drop 1 (dropWhile (\<lambda>c. c \<noteq> CHR ''/'') (rev path)))"

definition base_of :: "string \<Rightarrow> string" where
  "base_of path = rev (takeWhile (\<lambda>c. c \<noteq> CHR ''/'') (rev path))"

text \<open>A plain file name: no path separator, no null byte, at most 255 bytes.\<close>

definition plain_name :: "string \<Rightarrow> bool" where
  "plain_name name = (CHR ''/'' \<notin> set name \<and> CHR 0x00 \<notin> set name \<and> length name \<le> 255)"

text \<open>
  \<open>with open(path, 'w') as f: json.dump(data, f, indent=2)\<close> for a file \<open>name\<close> in the
  cache directory \<open>dir\<close>. The cache directory exists (the constructors create it). A
  name with a null byte is refused; a name with a path separator leads to another
  directory, and \<open>open\<close> raises unless that directory exists; a last component of more
  than 255 bytes is too long for the file system. The file's modification time is the
  time of the write.
\<close>

definition write_json :: "string \<Rightarrow> string \<Rightarrow> json \<Rightarrow> world \<Rightarrow> exn + world" where
  "write_json dir name data w =
     (let path = path_join dir name in
      if CHR 0x00 \<in> set name then Inl (ValueError ''embedded null byte'')
      else if CHR ''/'' \<in> set name \<and> parent_of path \<notin> set (dirs w)
      then Inl (FileNotFoundError (''[Errno 2] No such file or directory: '' @ path))
      else if 255 < length (base_of name)
      then Inl (OSError (''[Errno 36] File name too long: '' @ path))
      else Inr (w\<lparr>files := AList.update path
                              \<lparr>content = Doc data, mtime = clock w\<rparr> (files w)\<rparr>))"

definition timedelta_hours :: "int \<Rightarrow> int" where
  "timedelta_hours h = h * 3600000000"

section \<open>The collector's cache\<close>

text \<open>
  \<^verbatim>\<open>
  def _load_from_cache(self, cache_key, max_age_hours=24):
      cache_file = self.cache_dir / f"{cache_key}.json"
      if not cache_file.exists():
          return None
      file_time = datetime.fromtimestamp(cache_file.stat().st_mtime)
      if datetime.now() - file_time > timedelta(hours=max_age_hours):
          logger.info(f"Cache expired for key {cache_key}")
          return None
      try:
          with open(cache_file, 'r', encoding='utf-8') as f:
              logger.info(f"Loading from cache: {cache_key}")
              return json.load(f)
      except json.JSONDecodeError:
          logger.warning(f"Invalid cache file: {cache_file}")
          return None
  \<close>
  The result is the Python value returned (\<open>JNull\<close> is \<open>None\<close>) or the exception that
  leaves the function, with the world after the call.
\<close>

definition collector_load_from_cache ::
    "collector \<Rightarrow> string \<Rightarrow> int \<Rightarrow> world \<Rightarrow> (exn + json) \<times> world" where
  "collector_load_from_cache self cache_key max_age_hours w =
     (let cache_file = path_join (cache_dir self) (cache_key @ ''.json'') in
      case map_of (files w) cache_file of
        None \<Rightarrow> (Inr JNull, w)
      | Some f \<Rightarrow>
          if clock w - mtime f > timedelta_hours max_age_hours
          then (Inr JNull, logger (''Cache expired for key '' @ cache_key) w)
          else
            (let w1 = logger (''Loading from cache: '' @ cache_key) w in
             case json_load (content f) of
               Inr v \<Rightarrow> (Inr v, w1)
             | Inl (JSONDecodeError m) \<Rightarrow> (Inr JNull, logger (''Invalid cache file: '' @ cache_file) w1)
             | Inl e \<Rightarrow> (Inl e, w1)))"

text \<open>
  \<^verbatim>\<open>
  def _save_to_cache(self, cache_key, data):
      cache_file = self.cache_dir / f"{cache_key}.json"
      with open(cache_file, 'w', encoding='utf-8') as f:
          json.dump(data, f, indent=2)
      logger.info(f"Saved to cache: {cache_key}")
  \<close>
\<close>

definition collector_save_to_cache ::
    "collector \<Rightarrow> string \<Rightarrow> json \<Rightarrow> world \<Rightarrow> (exn + json) \<times> world" where
  "collector_save_to_cache self cache_key data w =
     (case write_json (cache_dir self) (cache_key @ ''.json'') data w of
        Inl e \<Rightarrow> (Inl e, w)
      | Inr w1 \<Rightarrow> (Inr JNull, logger (''Saved to cache: '' @ cache_key) w1))"

section \<open>The analyzer's cache\<close>

record analyzer =
  llm_cache_dir :: string
  llm_api_key :: string
  model :: string

text \<open>
  Python's \<open>str()\<close> of a value, as an f-string formats it. The \<open>repr\<close> of a list or a
  dictionary is left to the parameter \<open>repr\<close>.
\<close>

fun digits :: "nat \<Rightarrow> string" where
  "digits n = (if n < 10 then [char_of (48 + n)] else digits (n div 10) @ [char_of (48 + n mod 10)])"

declare digits.simps [simp del]

definition str_int :: "int \<Rightarrow> string" where
  "str_int i = (if i < 0 then ''-'' @ digits (nat (- i)) else digits (nat i))"

fun py_str :: "(json \<Rightarrow> string) \<Rightarrow> json \<Rightarrow> string" where
  "py_str repr JNull = ''None''"
| "py_str repr (JBool b) = (if b then ''True'' else ''False'')"
| "py_str repr (JInt i) = str_int i"
| "py_str repr (JStr s) = s"
| "py_str repr v = repr v"

text \<open>
  \<^verbatim>\<open>
  def _get_cache_path(self, paper_id, analysis_type):
      return self.cache_dir / f"{paper_id}_{analysis_type}.json"
  \<close>
  split into the file's name and its place in the cache directory.
\<close>

definition cache_name :: "(json \<Rightarrow> string) \<Rightarrow> json \<Rightarrow> string \<Rightarrow> string" where
  "cache_name repr paper_id analysis_type = py_str repr paper_id @ ''_'' @ analysis_type @ ''.json''"

definition get_cache_path :: "analyzer \<Rightarrow> (json \<Rightarrow> string) \<Rightarrow> json \<Rightarrow> string \<Rightarrow> string" where
  "get_cache_path self repr paper_id analysis_type =
     path_join (llm_cache_dir self) (cache_name repr paper_id analysis_type)"

text \<open>
  \<^verbatim>\<open>
  def _load_from_cache(self, paper_id, analysis_type):
      cache_path = self._get_cache_path(paper_id, analysis_type)
      if cache_path.exists():
          try:
              with open(cache_path, 'r', encoding='utf-8') as f:
                  logger.info(f"Loading cached analysis: {cache_path}")
                  return json.load(f)
          except json.JSONDecodeError:
              logger.warning(f"Invalid cache file: {cache_path}")
      return None
  \<close>
\<close>

definition analyzer_load_from_cache ::
    "analyzer \<Rightarrow> (json \<Rightarrow> string) \<Rightarrow> json \<Rightarrow> string \<Rightarrow> world \<Rightarrow> (exn + json) \<times> world" where
  "analyzer_load_from_cache self repr paper_id analysis_type w =
     (let cache_path = get_cache_path self repr paper_id analysis_type in
      case map_of (files w) cache_path of
        None \<Rightarrow> (Inr JNull, w)
      | Some f \<Rightarrow>
          (let w1 = logger (''Loading cached analysis: '' @ cache_path) w in
           case json_load (content f) of
             Inr v \<Rightarrow> (Inr v, w1)
           | Inl (JSONDecodeError m) \<Rightarrow> (Inr JNull, logger (''Invalid cache file: '' @ cache_path) w1)
           | Inl e \<Rightarrow> (Inl e, w1)))"

text \<open>
  \<^verbatim>\<open>
  def _save_to_cache(self, paper_id, analysis_type, data):
      cache_path = self._get_cache_path(paper_id, analysis_type)
      with open(cache_path, 'w', encoding='utf-8') as f:
          json.dump(data, f, indent=2)
      logger.info(f"Saved analysis to cache: {cache_path}")
  \<close>
\<close>

definition analyzer_save_to_cache ::
    "analyzer \<Rightarrow> (json \<Rightarrow> string) \<Rightarrow> json \<Rightarrow> string \<Rightarrow> json \<Rightarrow> world \<Rightarrow> (exn + json) \<times> world" where
  "analyzer_save_to_cache self repr paper_id analysis_type data w =
     (case write_json (llm_cache_dir self) (cache_name repr paper_id analysis_type) data w of
        Inl e \<Rightarrow> (Inl e, w)
      | Inr w1 \<Rightarrow>
          (Inr JNull, logger (''Saved analysis to cache: '' @ get_cache_path self repr paper_id analysis_type) w1))"

section \<open>Collecting papers\<close>

text \<open>\<open>time.sleep(d)\<close>, with \<open>d\<close> in microseconds: a negative length raises \<open>ValueError\<close>.\<close>

definition sleep :: "int \<Rightarrow> world \<Rightarrow> exn + world" where
  "sleep d w =
     (if d < 0 then Inl (ValueError ''sleep length must be non-negative'')
      else Inr (w\<lparr>clock := clock w + d\<rparr>))"

definition default_fields :: "string list" where
  "default_fields =
     [''paperId'', ''title'', ''abstract'', ''year'', ''authors'', ''citationCount'',
      ''referenceCount'', ''publicationDate'', ''venue'', ''url'', ''citations'', ''references'']"

fun join :: "string \<Rightarrow> string list \<Rightarrow> string" where
  "join sep [] = []"
| "join sep [x] = x"
| "join sep (x # y # ys) = x @ sep @ join sep (y # ys)"

text \<open>What \<open>list.extend\<close> iterates over: the elements of a list, the keys of a
  dictionary, the characters of a string; anything else is not iterable.\<close>

fun py_iter :: "json \<Rightarrow> exn + json list" where
  "py_iter (JList xs) = Inr xs"
| "py_iter (JDict kvs) = Inr (map (\<lambda>kv. JStr (fst kv)) kvs)"
| "py_iter (JStr s) = Inr (map (\<lambda>c. JStr [c]) s)"
| "py_iter JNull = Inl (TypeError ''NoneType object is not iterable'')"
| "py_iter (JBool b) = Inl (TypeError ''bool object is not iterable'')"
| "py_iter (JInt i) = Inl (TypeError ''int object is not iterable'')"

text \<open>
  The pagination loop of \<open>search_semantic_scholar\<close>:
  \<^verbatim>\<open>
  while len(all_papers) < limit:
      params = {...}
      try:
          logger.info(f"Querying Semantic Scholar (offset={offset})...")
          response = session.get(url, params=params, headers=headers, timeout=30)
          response.raise_for_status()
          data = response.json()
          papers = data.get('data', [])
          if not papers:
              break
          all_papers.extend(papers)
          offset += len(papers)
          time.sleep(1)
      except requests.exceptions.RequestException as e:
          logger.error(f"Error querying Semantic Scholar: {e}")
          break
  \<close>
  A request either fails with an exception or gives the decoded body. An exception
  other than \<open>RequestException\<close> leaves the function.
\<close>

function fetch_papers :: "int \<Rightarrow> json list \<Rightarrow> int \<Rightarrow> world \<Rightarrow> (exn + json list) \<times> world" where
  "fetch_papers limit all_papers offset w =
     (if int (length all_papers) < limit then
        (let w1 = (logger (''Querying Semantic Scholar (offset='' @ str_int offset @ '')...'') w)
                    \<lparr>http_calls := Suc (http_calls w)\<rparr>
         in case http w (http_calls w) of
              Inl e \<Rightarrow>
                (case e of
                   RequestException m \<Rightarrow>
                     (Inr all_papers, logger (''Error querying Semantic Scholar: '' @ m) w1)
                 | _ \<Rightarrow> (Inl e, w1))
            | Inr data \<Rightarrow>
                (case data of
                   JDict d \<Rightarrow>
                     (let papers = dict_get d ''data'' (JList []) in
                      if \<not> truthy papers then (Inr all_papers, w1)
                      else
                        (case py_iter papers of
                           Inl e \<Rightarrow> (Inl e, w1)
                         | Inr items \<Rightarrow>
                             fetch_papers limit (all_papers @ items) (offset + int (length items))
                               (w1\<lparr>clock := clock w1 + 1000000\<rparr>)))
                 | _ \<Rightarrow> (Inl (AttributeError ''object has no attribute get''), w1)))
      else (Inr all_papers, w))"
  by pat_completeness auto
termination
proof (relation "measure (\<lambda>(limit, all_papers, offset, w). nat (limit - int (length all_papers)))")
  show "wf (measure (\<lambda>(limit, all_papers, offset, w). nat (limit - int (length all_papers))))"
    by simp
next
  fix limit :: int and all_papers :: "json list" and offset :: int and w x xa b x2 x6 xb x2a
  assume "int (length all_papers) < limit" and "\<not> \<not> truthy xb" and "py_iter xb = Inr x2a"
  then have "x2a \<noteq> []" by (cases xb) auto
  with \<open>int (length all_papers) < limit\<close>
  show "((limit, all_papers @ x2a, offset + int (length x2a), x\<lparr>clock := clock x + 1000000\<rparr>),
         limit, all_papers, offset, w)
        \<in> measure (\<lambda>(limit, all_papers, offset, w). nat (limit - int (length all_papers)))"
    by (cases x2a) auto
qed

declare fetch_papers.simps [simp del]

text \<open>
  \<^verbatim>\<open>
  def search_semantic_scholar(self, query, limit=100, fields=None):
      if fields is None:
          fields = [...]
      cache_key = self._get_cache_key(f"{query}:{limit}:{','.join(fields)}", "semantic_scholar")
      cached_data = self._load_from_cache(cache_key)
      if cached_data is not None:
          return cached_data
      ...
      all_papers = []
      offset = 0
      with requests.Session() as session:
          while len(all_papers) < limit: ...
      self._save_to_cache(cache_key, all_papers)
      logger.info(f"Collected {len(all_papers)} papers from Semantic Scholar")
      return all_papers
  \<close>
\<close>

definition search_key :: "collector \<Rightarrow> string \<Rightarrow> int \<Rightarrow> string list option \<Rightarrow> string" where
  "search_key self query limit fields_opt =
     get_cache_key self
       (query @ '':'' @ str_int limit @ '':''
          @ join '','' (case fields_opt of None \<Rightarrow> default_fields | Some fs \<Rightarrow> fs))
       ''semantic_scholar''"

definition search_semantic_scholar ::
    "collector \<Rightarrow> string \<Rightarrow> int \<Rightarrow> string list option \<Rightarrow> world \<Rightarrow> (exn + json) \<times> world" where
  "search_semantic_scholar self query limit fields_opt w =
     (let cache_key = search_key self query limit fields_opt in
      case collector_load_from_cache self cache_key 24 w of
        (Inl e, w1) \<Rightarrow> (Inl e, w1)
      | (Inr cached_data, w1) \<Rightarrow>
          if cached_data \<noteq> JNull then (Inr cached_data, w1)
          else
            (case fetch_papers limit [] 0 w1 of
               (Inl e, w2) \<Rightarrow> (Inl e, w2)
             | (Inr all_papers, w2) \<Rightarrow>
                 (case collector_save_to_cache self cache_key (JList all_papers) w2 of
                    (Inl e, w3) \<Rightarrow> (Inl e, w3)
                  | (Inr u, w3) \<Rightarrow>
                      (Inr (JList all_papers),
                       logger (''Collected '' @ digits (length all_papers)
                                 @ '' papers from Semantic Scholar'') w3))))"

section \<open>Analysing papers\<close>

text \<open>
  The library functions the analyzer calls on values the environment supplies:
  \<open>json.loads\<close> (\<open>None\<close> stands for \<open>JSONDecodeError\<close>), \<open>time.strftime\<close> of the
  clock, and \<open>repr\<close> of a list or dictionary.
\<close>

record pylib =
  json_loads :: "string \<Rightarrow> json option"
  strftime :: "int \<Rightarrow> string"
  py_repr :: "json \<Rightarrow> string"

type_synonym paper = "(string \<times> json) list"

text \<open>\<open>str.strip()\<close>, \<open>startswith\<close>, \<open>endswith\<close>, and the removal of a Markdown code
  fence around the reply.\<close>

definition is_space :: "char \<Rightarrow> bool" where
  "is_space c = (of_char c \<in> set [9, 10, 11, 12, 13, 28, 29, 30, 31, 32 :: nat])"

definition py_strip :: "string \<Rightarrow> string" where
  "py_strip s = rev (dropWhile is_space (rev (dropWhile is_space s)))"

definition startswith :: "string \<Rightarrow> string \<Rightarrow> bool" where
  "startswith s pre = (take (length pre) s = pre)"

definition endswith :: "string \<Rightarrow> string \<Rightarrow> bool" where
  "endswith s suf = (length suf \<le> length s \<and> drop (length s - length suf) s = suf)"

definition strip_fences :: "string \<Rightarrow> string" where
  "strip_fences reply =
     (let r0 = py_strip reply;
          r1 = (if startswith r0 ''```json'' then drop 7 r0 else r0);
          r2 = (if startswith r1 ''```'' then drop 3 r1 else r1);
          r3 = (if endswith r2 ''```'' then take (length r2 - 3) r2 else r2)
      in py_strip r3)"

text \<open>
  \<^verbatim>\<open>
  def _call_openai(self, messages, temperature=0.3, max_tokens=2000):
      try:
          response = self.client.chat.completions.create(...)
          return response.choices[0].message.content
      except Exception as e:
          logger.error(f"OpenAI API error: {e}")
          raise
  \<close>
  The reply is the remote service's next answer; the prompt does not enter the model,
  the answers being arbitrary.
\<close>

definition call_openai :: "analyzer \<Rightarrow> world \<Rightarrow> (exn + string option) \<times> world" where
  "call_openai self w =
     (let w1 = w\<lparr>llm_calls := Suc (llm_calls w)\<rparr> in
      case llm w (llm_calls w) of
        Inl e \<Rightarrow> (Inl e, logger (''OpenAI API error: '' @ str_exn e) w1)
      | Inr reply \<Rightarrow> (Inr reply, w1))"

text \<open>\<open>paper.get('paperId', paper.get('id', 'unknown'))\<close>\<close>

definition paper_id_of :: "paper \<Rightarrow> json" where
  "paper_id_of paper = dict_get paper ''paperId'' (dict_get paper ''id'' (JStr ''unknown''))"

text \<open>\<open>obj[key] = value\<close> on the value \<open>json.loads\<close> returned.\<close>

fun set_item :: "json \<Rightarrow> string \<Rightarrow> json \<Rightarrow> exn + json" where
  "set_item (JDict d) k v = Inr (JDict (dict_set d k v))"
| "set_item (JList xs) k v = Inl (TypeError ''list indices must be integers or slices, not str'')"
| "set_item obj k v = Inl (TypeError ''object does not support item assignment'')"

text \<open>
  \<open>analyze_paper\<close> and \<open>extract_mirofish_integration_points\<close> are one function but for
  the analysis type, the prompt, the log messages and the message of the parse error.
\<close>

record variant =
  v_kind :: string
  v_info :: string
  v_parse_error :: string
  v_failure :: string
  v_logs_response :: bool

definition comprehensive :: variant where
  "comprehensive =
     \<lparr>v_kind = ''comprehensive'', v_info = ''Analyzing paper: '',
      v_parse_error = ''Failed to parse analysis'', v_failure = ''Analysis failed: '',
      v_logs_response = True\<rparr>"

definition mirofish :: variant where
  "mirofish =
     \<lparr>v_kind = ''mirofish'', v_info = ''Extracting MiroFish integration points: '',
      v_parse_error = ''Failed to parse integration points'',
      v_failure = ''Integration analysis failed: '', v_logs_response = False\<rparr>"

text \<open>
  The two \<open>except\<close> clauses of an analysis:
  \<^verbatim>\<open>
  except json.JSONDecodeError as e:
      logger.error(f"Failed to parse JSON response: {e}")
      logger.error(f"Response was: {response}")          # analyze_paper only
      return {'error': 'Failed to parse analysis', 'raw_response': response}
  except Exception as e:
      logger.error(f"Analysis failed: {e}")
      return {'error': str(e)}
  \<close>
  \<open>response\<close> is the stripped reply once it is bound; a \<open>JSONDecodeError\<close> raised
  before that makes the first clause itself fail on the unbound name.
\<close>

definition on_error :: "variant \<Rightarrow> exn \<Rightarrow> string option \<Rightarrow> world \<Rightarrow> (exn + json) \<times> world" where
  "on_error v e response w =
     (case e of
        JSONDecodeError m \<Rightarrow>
          (let w1 = logger (''Failed to parse JSON response: '' @ m) w in
           case response of
             None \<Rightarrow> (Inl (UnboundLocalError ''cannot access local variable response''), w1)
           | Some r \<Rightarrow>
               (Inr (JDict [(''error'', JStr (v_parse_error v)), (''raw_response'', JStr r)]),
                if v_logs_response v then logger (''Response was: '' @ r) w1 else w1))
      | _ \<Rightarrow> (Inr (JDict [(''error'', JStr (str_exn e))]), logger (v_failure v @ str_exn e) w))"

text \<open>
  \<^verbatim>\<open>
  paper_id = paper.get('paperId', paper.get('id', 'unknown'))
  if use_cache:
      cached = self._load_from_cache(paper_id, 'comprehensive')
      if cached:
          return cached
  title = paper.get('title', 'No title')
  ...
  try:
      logger.info(f"Analyzing paper: {title}")
      response = self._call_openai(messages, temperature=0.3)
      response = response.strip()
      ... (code fence removed) ...
      analysis = json.loads(response)
      analysis['paper_id'] = paper_id
      analysis['analyzed_at'] = time.strftime('%Y-%m-%d %H:%M:%S')
      if use_cache:
          self._save_to_cache(paper_id, 'comprehensive', analysis)
      return analysis
  except ...
  \<close>
\<close>

definition analyze ::
    "variant \<Rightarrow> analyzer \<Rightarrow> pylib \<Rightarrow> paper \<Rightarrow> bool \<Rightarrow> world \<Rightarrow> (exn + json) \<times> world" where
  "analyze v self lib paper use_cache w =
     (let paper_id = paper_id_of paper in
      case (if use_cache then analyzer_load_from_cache self (py_repr lib) paper_id (v_kind v) w
            else (Inr JNull, w)) of
        (Inl e, w1) \<Rightarrow> (Inl e, w1)
      | (Inr cached, w1) \<Rightarrow>
          if use_cache \<and> truthy cached then (Inr cached, w1)
          else
            (let title = dict_get paper ''title'' (JStr ''No title'') in
             case call_openai self (logger (v_info v @ py_str (py_repr lib) title) w1) of
               (Inl e, w2) \<Rightarrow> on_error v e None w2
             | (Inr None, w2) \<Rightarrow>
                 on_error v (AttributeError ''NoneType object has no attribute strip'') None w2
             | (Inr (Some reply), w2) \<Rightarrow>
                 (let response = strip_fences reply in
                  case json_loads lib response of
                    None \<Rightarrow> on_error v (JSONDecodeError ''Expecting value'') (Some response) w2
                  | Some analysis \<Rightarrow>
                      (case set_item analysis ''paper_id'' paper_id of
                         Inl e \<Rightarrow> on_error v e (Some response) w2
                       | Inr a1 \<Rightarrow>
                           (case set_item a1 ''analyzed_at'' (JStr (strftime lib (clock w2))) of
                              Inl e \<Rightarrow> on_error v e (Some response) w2
                            | Inr a2 \<Rightarrow>
                                if use_cache then
                                  (case analyzer_save_to_cache self (py_repr lib) paper_id (v_kind v) a2 w2 of
                                     (Inl e, w3) \<Rightarrow> on_error v e (Some response) w3
                                   | (Inr u, w3) \<Rightarrow> (Inr a2, w3))
                                else (Inr a2, w2))))))"

definition analyze_paper ::
    "analyzer \<Rightarrow> pylib \<Rightarrow> paper \<Rightarrow> bool \<Rightarrow> world \<Rightarrow> (exn + json) \<times> world" where
  "analyze_paper = analyze comprehensive"

definition extract_mirofish_integration_points ::
    "analyzer \<Rightarrow> pylib \<Rightarrow> paper \<Rightarrow> bool \<Rightarrow> world \<Rightarrow> (exn + json) \<times> world" where
  "extract_mirofish_integration_points = analyze mirofish"

text \<open>
  \<^verbatim>\<open>
  def batch_analyze(self, papers, analysis_type='comprehensive', delay=1.0):
      results = []
      total = len(papers)
      for i, paper in enumerate(papers, 1):
          logger.info(f"Analyzing paper {i}/{total}")
          try:
              if analysis_type == 'mirofish':
                  result = self.extract_mirofish_integration_points(paper)
              else:
                  result = self.analyze_paper(paper)
              results.append(result)
              if i < total:
                  time.sleep(delay)
          except Exception as e:
              logger.error(f"Failed to analyze paper {i}: {e}")
              results.append({
                  'paper_id': paper.get('paperId', paper.get('id', 'unknown')),
                  'error': str(e)
              })
      return results
  \<close>
\<close>

definition run_item ::
    "analyzer \<Rightarrow> pylib \<Rightarrow> string \<Rightarrow> paper \<Rightarrow> world \<Rightarrow> (exn + json) \<times> world" where
  "run_item self lib analysis_type paper w =
     (if analysis_type = ''mirofish'' then extract_mirofish_integration_points self lib paper True w
      else analyze_paper self lib paper True w)"

definition error_entry :: "paper \<Rightarrow> exn \<Rightarrow> json" where
  "error_entry paper e = JDict [(''paper_id'', paper_id_of paper), (''error'', JStr (str_exn e))]"

fun batch_loop ::
    "analyzer \<Rightarrow> pylib \<Rightarrow> string \<Rightarrow> int \<Rightarrow> nat \<Rightarrow> nat \<Rightarrow> paper list \<Rightarrow> json list \<Rightarrow> world
       \<Rightarrow> json list \<times> world" where
  "batch_loop self lib analysis_type delay n_total i [] results w = (results, w)"
| "batch_loop self lib analysis_type delay n_total i (paper # rest) results w =
     (case run_item self lib analysis_type paper
             (logger (''Analyzing paper '' @ digits i @ ''/'' @ digits n_total) w) of
        (Inl e, w1) \<Rightarrow>
          batch_loop self lib analysis_type delay n_total (Suc i) rest
            (results @ [error_entry paper e])
            (logger (''Failed to analyze paper '' @ digits i @ '': '' @ str_exn e) w1)
      | (Inr result, w1) \<Rightarrow>
          if i < n_total then
            (case sleep delay w1 of
               Inl e \<Rightarrow>
                 batch_loop self lib analysis_type delay n_total (Suc i) rest
                   (results @ [result, error_entry paper e])
                   (logger (''Failed to analyze paper '' @ digits i @ '': '' @ str_exn e) w1)
             | Inr w2 \<Rightarrow>
                 batch_loop self lib analysis_type delay n_total (Suc i) rest (results @ [result]) w2)
          else batch_loop self lib analysis_type delay n_total (Suc i) rest (results @ [result]) w1)"

definition batch_analyze ::
    "analyzer \<Rightarrow> pylib \<Rightarrow> paper list \<Rightarrow> string \<Rightarrow> int \<Rightarrow> world \<Rightarrow> json list \<times> world" where
  "batch_analyze self lib papers analysis_type delay w =
     batch_loop self lib analysis_type delay (length papers) 1 papers [] w"

text \<open>An error-shaped payload is a dictionary with an \<open>error\<close> key.\<close>

fun error_shaped :: "json \<Rightarrow> bool" where
  "error_shaped (JDict d) = (map_of d ''error'' \<noteq> None)"
| "error_shaped v = False"

text \<open>What the batch appends for an item: the analysis returned, or the error entry
  for the exception raised.\<close>

fun entry_of :: "paper \<Rightarrow> exn + json \<Rightarrow> json" where
  "entry_of paper (Inr result) = result"
| "entry_of paper (Inl e) = error_entry paper e"

section \<open>A concrete setting\<close>

text \<open>The two classes with their default directories, and a world with empty caches
  and no other directories, whose remote services refuse every request.\<close>

definition collector0 :: collector where
  "collector0 = \<lparr>cache_dir = ''./cache'', api_key = None\<rparr>"

definition analyzer0 :: analyzer where
  "analyzer0 = \<lparr>llm_cache_dir = ''./cache/llm'', llm_api_key = ''sk-test'',
                 model = ''gpt-4-turbo-preview''\<rparr>"

definition no_http :: "nat \<Rightarrow> exn + json" where
  "no_http n = Inl (RequestException ''connection refused'')"

definition no_llm :: "nat \<Rightarrow> exn + string option" where
  "no_llm n = Inl (APIError ''connection error'')"

definition world0 :: world where
  "world0 = \<lparr>files = [], dirs = [], clock = 0, log = [], http = no_http, http_calls = 0,
              llm = no_llm, llm_calls = 0\<rparr>"

definition no_repr :: "json \<Rightarrow> string" where
  "no_repr v = ''[...]''"

definition loads0 :: "string \<Rightarrow> json option" where
  "loads0 s = (if s = ''{}'' then Some (JDict []) else None)"

definition strftime0 :: "int \<Rightarrow> string" where
  "strftime0 t = ''2024-01-01 00:00:00''"

definition lib0 :: pylib where
  "lib0 = \<lparr>json_loads = loads0, strftime = strftime0, py_repr = no_repr\<rparr>"

text \<open>A language model that answers every request with an empty JSON object, and one
  whose third answer is a transport error.\<close>

definition llm_ok :: "nat \<Rightarrow> exn + string option" where
  "llm_ok n = Inr (Some ''{}'')"

definition llm_third_fails :: "nat \<Rightarrow> exn + string option" where
  "llm_third_fails n = (if n = 2 then Inl (APIError ''Connection error.'') else Inr (Some ''{}''))"

definition papers5 :: "paper list" where
  "papers5 = [[(''paperId'', JStr ''p1'')], [(''paperId'', JStr ''p2'')], [(''paperId'', JStr ''p3'')],
              [(''paperId'', JStr ''p4'')], [(''paperId'', JStr ''p5'')]]"

text \<open>A paper search service that answers the first request with one paper and fails
  afterwards.\<close>

definition http_one_page :: "nat \<Rightarrow> exn + json" where
  "http_one_page n =
     (if n = 0 then Inr (JDict [(''data'', JList [JDict [(''paperId'', JStr ''p1'')]])])
      else Inl (RequestException ''read timed out''))"

text \<open>An arXiv paper as \<open>search_arxiv\<close> builds it: its \<open>id\<close> is the entry's URL.\<close>

definition arxiv_id :: string where
  "arxiv_id = ''http://arxiv.org/abs/2101.00001v1''"

definition arxiv_paper :: paper where
  "arxiv_paper = [(''id'', JStr arxiv_id), (''title'', JStr ''A paper''),
                  (''summary'', JStr ''An abstract''), (''url'', JStr arxiv_id)]"

definition papers2 :: "paper list" where
  "papers2 = [[(''paperId'', JStr ''p1'')], [(''paperId'', JStr ''p2'')]]"

section \<open>Facts about the model\<close>

lemma length_le_bytes: "length (le_bytes k n) = k"
  by (induction k arbitrary: n) simp_all

lemma length_md5_digest: "length (md5_digest bs) = 16"
  by (simp add: md5_digest_def Let_def length_le_bytes split: prod.split)

lemma hex_digit_in: "hex_digit n \<in> set ''0123456789abcdef''"
  unfolding hex_digit_def by (rule nth_mem) simp

lemma length_concat_hex: "length (concat (map hex_byte bs)) = 2 * length bs"
  by (induction bs) (simp_all add: hex_byte_def)

lemma set_concat_hex: "set (concat (map hex_byte bs)) \<subseteq> set ''0123456789abcdef''"
proof (induction bs)
  case Nil
  show ?case by simp
next
  case (Cons b bs)
  have "set (hex_byte b) \<subseteq> set ''0123456789abcdef''"
    using hex_digit_in [of "b div 16"] hex_digit_in [of b] by (simp add: hex_byte_def)
  with Cons show ?case by simp
qed

lemma length_md5_hexdigest: "length (md5_hexdigest s) = 32"
  by (simp add: md5_hexdigest_def length_concat_hex length_md5_digest)

lemma set_md5_hexdigest: "set (md5_hexdigest s) \<subseteq> set ''0123456789abcdef''"
  unfolding md5_hexdigest_def by (rule set_concat_hex)

lemma slash_not_hex: "CHR ''/'' \<notin> set (md5_hexdigest s) \<and> CHR 0x00 \<notin> set (md5_hexdigest s)"
  using set_md5_hexdigest [of s] by auto

text \<open>A fingerprint with its extension is a plain file name.\<close>

lemma cache_key_plain: "plain_name (get_cache_key self query source @ ''.json'')"
  using slash_not_hex [of "key_string source query"] length_md5_hexdigest [of "key_string source query"]
  by (simp add: get_cache_key_def plain_name_def)

lemma split_at_first:
  "c \<notin> set s1 \<Longrightarrow> c \<notin> set s2 \<Longrightarrow> s1 @ c # q1 = s2 @ c # q2 \<Longrightarrow> s1 = s2 \<and> q1 = q2"
proof (induction s1 arbitrary: s2)
  case Nil
  then show ?case by (cases s2) auto
next
  case (Cons a s1)
  then show ?case by (cases s2) auto
qed

lemma key_string_inj:
  assumes "CHR '':'' \<notin> set s1" and "CHR '':'' \<notin> set s2"
    and "key_string s1 q1 = key_string s2 q2"
  shows "s1 = s2 \<and> q1 = q2"
  using assms split_at_first [of "CHR '':''" s1 s2 q1 q2] by (simp add: key_string_def)

lemma files_logger [simp]: "files (logger m w) = files w"
  by (simp add: logger_def)

lemma clock_logger [simp]: "clock (logger m w) = clock w"
  by (simp add: logger_def)

lemma http_calls_logger [simp]: "http_calls (logger m w) = http_calls w"
  by (simp add: logger_def)

lemma llm_calls_logger [simp]: "llm_calls (logger m w) = llm_calls w"
  by (simp add: logger_def)

lemma http_logger [simp]: "http (logger m w) = http w"
  by (simp add: logger_def)

lemma llm_logger [simp]: "llm (logger m w) = llm w"
  by (simp add: logger_def)

lemma base_of_plain:
  assumes "CHR ''/'' \<notin> set name"
  shows "base_of name = name"
proof -
  have "\<forall>x\<in>set (rev name). x \<noteq> CHR ''/''"
    using assms by auto
  then have "takeWhile (\<lambda>c. c \<noteq> CHR ''/'') (rev name) = rev name"
    by (rule takeWhile_eq_all_conv [THEN iffD2])
  then show ?thesis by (simp only: base_of_def rev_rev_ident)
qed

lemma write_json_ok:
  assumes "plain_name name"
  shows "write_json dir name data w =
           Inr (w\<lparr>files := AList.update (path_join dir name)
                              \<lparr>content = Doc data, mtime = clock w\<rparr> (files w)\<rparr>)"
  using assms by (simp add: write_json_def plain_name_def base_of_plain Let_def)

lemma map_of_written:
  "map_of (AList.update p f fs) p = Some f"
  by (simp add: update_conv')

lemma count_written:
  assumes "distinct (map fst fs)"
  shows "length (filter (\<lambda>e. fst e = p) (AList.update p f fs)) = 1"
proof -
  have d: "distinct (map fst (AList.update p f fs))"
    using assms by (rule distinct_update)
  have "p \<in> dom (map_of (AList.update p f fs))"
    by (simp add: update_conv')
  then have m: "p \<in> fst ` set (AList.update p f fs)"
    by (simp only: dom_map_of_conv_image_fst)
  have "length (filter (\<lambda>e. fst e = p) xs) = 1" if "distinct (map fst xs)" "p \<in> fst ` set xs"
    for xs :: "('a \<times> 'b) list"
    using that
  proof (induction xs)
    case Nil
    then show ?case by simp
  next
    case (Cons x xs)
    show ?case
    proof (cases "fst x = p")
      case True
      with Cons.prems have "p \<notin> fst ` set xs" by auto
      then have "filter (\<lambda>e. fst e = p) xs = []" by (auto simp: filter_empty_conv)
      with True show ?thesis by simp
    next
      case False
      with Cons show ?thesis by auto
    qed
  qed
  from this [OF d m] show ?thesis .
qed

lemma collector_save_ok:
  assumes "plain_name (k @ ''.json'')"
  shows "collector_save_to_cache self k p w =
           (Inr JNull, logger (''Saved to cache: '' @ k)
              (w\<lparr>files := AList.update (path_join (cache_dir self) (k @ ''.json''))
                              \<lparr>content = Doc p, mtime = clock w\<rparr> (files w)\<rparr>))"
  using assms by (simp add: collector_save_to_cache_def write_json_ok)

lemma collector_load_doc:
  assumes "map_of (files w) (path_join (cache_dir self) (k @ ''.json''))
             = Some \<lparr>content = Doc p, mtime = T\<rparr>"
  shows "fst (collector_load_from_cache self k H w) =
           Inr (if clock w - T > timedelta_hours H then JNull else p)"
  using assms by (simp add: collector_load_from_cache_def Let_def)

lemma analyzer_save_ok:
  assumes "plain_name (cache_name repr pid kind)"
  shows "analyzer_save_to_cache self repr pid kind p w =
           (Inr JNull, logger (''Saved analysis to cache: '' @ get_cache_path self repr pid kind)
              (w\<lparr>files := AList.update (get_cache_path self repr pid kind)
                              \<lparr>content = Doc p, mtime = clock w\<rparr> (files w)\<rparr>))"
  using assms by (simp add: analyzer_save_to_cache_def write_json_ok get_cache_path_def)

lemma analyzer_load_doc:
  assumes "map_of (files w) (get_cache_path self repr pid kind) = Some \<lparr>content = Doc p, mtime = T\<rparr>"
  shows "analyzer_load_from_cache self repr pid kind w =
           (Inr p, logger (''Loading cached analysis: '' @ get_cache_path self repr pid kind) w)"
  using assms by (simp add: analyzer_load_from_cache_def Let_def)

lemma analyzer_load_absent:
  assumes "map_of (files w) (get_cache_path self repr pid kind) = None"
  shows "analyzer_load_from_cache self repr pid kind w = (Inr JNull, w)"
  using assms by (simp add: analyzer_load_from_cache_def Let_def)

section \<open>The claims about the fingerprint\<close>

text \<open>
  C4. The fingerprint is a function of the source tag and the query alone: two
  collectors, whatever their cache directory and API key, compute the same fingerprint
  for the same logical key, it is the MD5 hex digest of \<open>source:query\<close>, and it always
  has 32 characters.
\<close>

theorem fingerprint_deterministic:
  "get_cache_key self1 query source = get_cache_key self2 query source
   \<and> get_cache_key self1 query source = md5_hexdigest (source @ '':'' @ query)
   \<and> length (get_cache_key self1 query source) = 32"
  by (simp add: get_cache_key_def key_string_def length_md5_hexdigest)

text \<open>
  C5, as stated, fails: the source tag and the query are joined by a colon that either
  may contain, so the distinct keys (\<open>a:b\<close>, \<open>c\<close>) and (\<open>a\<close>, \<open>b:c\<close>) are hashed
  as the same string and get the same fingerprint.
\<close>

theorem fingerprint_collision:
  "(''a:b'', ''c'') \<noteq> (''a'', ''b:c'')
   \<and> get_cache_key collector0 ''c'' ''a:b'' = get_cache_key collector0 ''b:c'' ''a''"
  by (simp add: get_cache_key_def key_string_def)

text \<open>
  C5, amended. Two distinct keys whose source tags contain no colon are hashed as
  distinct strings, so their fingerprints are equal exactly when MD5 collides on these
  two distinct strings.
\<close>

theorem fingerprint_sensitivity:
  assumes "CHR '':'' \<notin> set s1" and "CHR '':'' \<notin> set s2" and "(s1, q1) \<noteq> (s2, q2)"
  shows "key_string s1 q1 \<noteq> key_string s2 q2
         \<and> (get_cache_key self q1 s1 = get_cache_key self q2 s2
              \<longleftrightarrow> md5_hexdigest (key_string s1 q1) = md5_hexdigest (key_string s2 q2))"
  using assms key_string_inj [of s1 s2 q1 q2] by (auto simp: get_cache_key_def)

theorem fingerprint_sensitivity_witness:
  "key_string ''arxiv'' ''graph:10'' \<noteq> key_string ''semantic_scholar'' ''graph:10''
   \<and> (get_cache_key collector0 ''graph:10'' ''arxiv''
         = get_cache_key collector0 ''graph:10'' ''semantic_scholar''
       \<longleftrightarrow> md5_hexdigest (key_string ''arxiv'' ''graph:10'')
            = md5_hexdigest (key_string ''semantic_scholar'' ''graph:10''))"
  by (rule fingerprint_sensitivity) simp_all

section \<open>The claims about the cache\<close>

text \<open>
  C7. Reading never changes the stored files: whatever the collector's or the
  analyzer's \<open>_load_from_cache\<close> finds (nothing, an expired entry, a corrupt entry, a
  document), and whether it returns or raises, the files after the call are the files
  before it. Only the log grows.
\<close>

theorem load_leaves_files:
  "files (snd (collector_load_from_cache self k H w)) = files w
   \<and> files (snd (analyzer_load_from_cache a repr pid kind w)) = files w"
  by (simp add: collector_load_from_cache_def analyzer_load_from_cache_def Let_def
        split: option.split sum.split exn.split)

text \<open>
  C3 fails in the code: only \<open>json.JSONDecodeError\<close> is caught. An entry whose bytes are
  not UTF-8 (the single byte \<open>0xFF\<close>) makes the read raise \<open>UnicodeDecodeError\<close>, and
  an entry of text nested too deep (200000 opening brackets) makes it raise
  \<open>RecursionError\<close>; both leave the collector's and the analyzer's \<open>_load_from_cache\<close>.
\<close>

theorem undecodable_entry_raises:
  "fst (collector_load_from_cache collector0 ''k'' 24
          (world0\<lparr>files := [(''./cache/k.json'',
             \<lparr>content = Unreadable (UnicodeDecodeError ''invalid start byte''), mtime = 0\<rparr>)]\<rparr>))
     = Inl (UnicodeDecodeError ''invalid start byte'')
   \<and> fst (analyzer_load_from_cache analyzer0 no_repr (JStr ''p1'') ''comprehensive''
          (world0\<lparr>files := [(''./cache/llm/p1_comprehensive.json'',
             \<lparr>content = Unreadable (UnicodeDecodeError ''invalid start byte''), mtime = 0\<rparr>)]\<rparr>))
     = Inl (UnicodeDecodeError ''invalid start byte'')
   \<and> fst (collector_load_from_cache collector0 ''k'' 24
          (world0\<lparr>files := [(''./cache/k.json'',
             \<lparr>content = Unreadable (RecursionError ''maximum recursion depth exceeded''),
                mtime = 0\<rparr>)]\<rparr>))
     = Inl (RecursionError ''maximum recursion depth exceeded'')
   \<and> fst (analyzer_load_from_cache analyzer0 no_repr (JStr ''p1'') ''comprehensive''
          (world0\<lparr>files := [(''./cache/llm/p1_comprehensive.json'',
             \<lparr>content = Unreadable (RecursionError ''maximum recursion depth exceeded''),
                mtime = 0\<rparr>)]\<rparr>))
     = Inl (RecursionError ''maximum recursion depth exceeded'')"
  by (simp add: collector_load_from_cache_def analyzer_load_from_cache_def Let_def
        collector0_def analyzer0_def world0_def path_join_def get_cache_path_def
        cache_name_def timedelta_hours_def logger_def)

text \<open>
  What the handler does cover: an entry on which the read raises \<open>JSONDecodeError\<close> is a
  miss in both classes (in the collector's also when the entry has expired).
\<close>

lemma json_decode_error_is_miss:
  assumes "map_of (files w) (path_join (cache_dir self) (k @ ''.json'')) = Some f"
    and "content f = Unreadable (JSONDecodeError m)"
    and "map_of (files w') (get_cache_path a repr pid kind) = Some f'"
    and "content f' = Unreadable (JSONDecodeError m')"
  shows "fst (collector_load_from_cache self k H w) = Inr JNull
         \<and> fst (analyzer_load_from_cache a repr pid kind w') = Inr JNull"
  using assms
  by (simp add: collector_load_from_cache_def analyzer_load_from_cache_def Let_def)

text \<open>
  C2. A collector entry written at time \<open>T\<close> and read at time \<open>clock w\<close> with age limit
  \<open>H\<close> hours gives its payload when the age is at most \<open>H\<close> hours and \<open>None\<close> when it
  is more; in particular one tick before the limit it gives the payload and one tick
  after it gives \<open>None\<close>. An analyzer entry gives its payload whatever the time.
\<close>

theorem expiry:
  assumes "map_of (files w) (path_join (cache_dir self) (k @ ''.json''))
             = Some \<lparr>content = Doc p, mtime = T\<rparr>"
    and "map_of (files w') (get_cache_path a repr pid kind) = Some \<lparr>content = Doc p', mtime = T'\<rparr>"
  shows "(clock w - T \<le> timedelta_hours H \<longrightarrow> fst (collector_load_from_cache self k H w) = Inr p)
       \<and> (clock w - T > timedelta_hours H \<longrightarrow> fst (collector_load_from_cache self k H w) = Inr JNull)
       \<and> fst (collector_load_from_cache self k H (w\<lparr>clock := T + timedelta_hours H - 1\<rparr>)) = Inr p
       \<and> fst (collector_load_from_cache self k H (w\<lparr>clock := T + timedelta_hours H + 1\<rparr>)) = Inr JNull
       \<and> fst (analyzer_load_from_cache a repr pid kind (w'\<lparr>clock := t\<rparr>)) = Inr p'"
  using assms
  by (simp add: collector_load_from_cache_def analyzer_load_from_cache_def Let_def)

theorem expiry_witness:
  "fst (collector_load_from_cache collector0 ''k'' 24
          (world0\<lparr>files := [(''./cache/k.json'', \<lparr>content = Doc (JList []), mtime = 5\<rparr>)],
                  clock := 5 + timedelta_hours 24 - 1\<rparr>)) = Inr (JList [])
   \<and> fst (collector_load_from_cache collector0 ''k'' 24
          (world0\<lparr>files := [(''./cache/k.json'', \<lparr>content = Doc (JList []), mtime = 5\<rparr>)],
                  clock := 5 + timedelta_hours 24 + 1\<rparr>)) = Inr JNull
   \<and> fst (analyzer_load_from_cache analyzer0 no_repr (JStr ''p1'') ''comprehensive''
          (world0\<lparr>files := [(''./cache/llm/p1_comprehensive.json'',
                               \<lparr>content = Doc (JInt 7), mtime = 0\<rparr>)],
                  clock := 1000000000000000\<rparr>)) = Inr (JInt 7)"
  using expiry [of "world0\<lparr>files := [(''./cache/k.json'', \<lparr>content = Doc (JList []), mtime = 5\<rparr>)]\<rparr>"
      collector0 "''k''" "JList []" 5
      "world0\<lparr>files := [(''./cache/llm/p1_comprehensive.json'', \<lparr>content = Doc (JInt 7), mtime = 0\<rparr>)]\<rparr>"
      analyzer0 no_repr "JStr ''p1''" "''comprehensive''" "JInt 7" 0 24 1000000000000000]
  by (simp add: collector0_def analyzer0_def world0_def path_join_def get_cache_path_def
        cache_name_def)

section \<open>Round trip and overwrite\<close>

text \<open>
  The collector keeps the round trip: \<open>_save_to_cache\<close> under a fingerprint always
  returns, and every later \<open>_load_from_cache\<close> of that fingerprint that finds the files as
  the write left them, at most \<open>H\<close> hours after the write, returns the payload written.
\<close>

lemma collector_roundtrip:
  "fst (collector_save_to_cache self (get_cache_key self query source) p w) = Inr JNull
   \<and> (\<forall>w2. files w2 = files (snd (collector_save_to_cache self (get_cache_key self query source) p w))
             \<and> clock w2 - clock w \<le> timedelta_hours H
          \<longrightarrow> fst (collector_load_from_cache self (get_cache_key self query source) H w2) = Inr p)"
proof (intro conjI allI impI)
  let ?k = "get_cache_key self query source"
  have ok: "plain_name (?k @ ''.json'')" by (rule cache_key_plain)
  show "fst (collector_save_to_cache self ?k p w) = Inr JNull"
    by (simp add: collector_save_ok [OF ok])
  fix w2 :: world
  assume a: "files w2 = files (snd (collector_save_to_cache self ?k p w))
               \<and> clock w2 - clock w \<le> timedelta_hours H"
  then have "map_of (files w2) (path_join (cache_dir self) (?k @ ''.json''))
               = Some \<lparr>content = Doc p, mtime = clock w\<rparr>"
    by (simp add: collector_save_ok [OF ok] map_of_written)
  from collector_load_doc [OF this, of H] a
  show "fst (collector_load_from_cache self ?k H w2) = Inr p" by simp
qed

text \<open>The analyzer keeps it when \<open>{paper_id}_{analysis_type}.json\<close> is a plain file name.\<close>

lemma analyzer_roundtrip:
  assumes ok: "plain_name (cache_name repr pid kind)"
  shows "fst (analyzer_save_to_cache a repr pid kind p w) = Inr JNull
       \<and> (\<forall>w2. files w2 = files (snd (analyzer_save_to_cache a repr pid kind p w))
             \<longrightarrow> fst (analyzer_load_from_cache a repr pid kind w2) = Inr p)"
proof (intro conjI allI impI)
  show "fst (analyzer_save_to_cache a repr pid kind p w) = Inr JNull"
    by (simp add: analyzer_save_ok [OF ok])
  fix w2 :: world
  assume "files w2 = files (snd (analyzer_save_to_cache a repr pid kind p w))"
  then have "map_of (files w2) (get_cache_path a repr pid kind)
               = Some \<lparr>content = Doc p, mtime = clock w\<rparr>"
    by (simp add: analyzer_save_ok [OF ok] map_of_written)
  from analyzer_load_doc [OF this]
  show "fst (analyzer_load_from_cache a repr pid kind w2) = Inr p" by simp
qed

text \<open>
  C1 fails in the code. The analyzer takes the paper id into the file name as it is, and
  the id of an arXiv paper, as \<open>search_arxiv\<close> builds it, is a URL. With such an id the
  file would lie below directories that do not exist: \<open>_save_to_cache\<close> raises
  \<open>FileNotFoundError\<close> and stores nothing, and the \<open>_load_from_cache\<close> that follows
  returns \<open>None\<close>, not the payload.
\<close>

theorem arxiv_roundtrip_fails:
  "paper_id_of arxiv_paper = JStr arxiv_id
   \<and> isl (fst (analyzer_save_to_cache analyzer0 no_repr (JStr arxiv_id) ''comprehensive''
                 (JDict [(''summary'', JStr ''s'')]) world0))
   \<and> snd (analyzer_save_to_cache analyzer0 no_repr (JStr arxiv_id) ''comprehensive''
                 (JDict [(''summary'', JStr ''s'')]) world0) = world0
   \<and> fst (analyzer_load_from_cache analyzer0 no_repr (JStr arxiv_id) ''comprehensive''
            (snd (analyzer_save_to_cache analyzer0 no_repr (JStr arxiv_id) ''comprehensive''
                    (JDict [(''summary'', JStr ''s'')]) world0)))
       = Inr JNull"
proof -
  have name: "cache_name no_repr (JStr arxiv_id) ''comprehensive''
                = ''http://arxiv.org/abs/2101.00001v1_comprehensive.json''"
    by (simp add: cache_name_def arxiv_id_def)
  have save: "analyzer_save_to_cache analyzer0 no_repr (JStr arxiv_id) ''comprehensive''
                 (JDict [(''summary'', JStr ''s'')]) world0
              = (Inl (FileNotFoundError (''[Errno 2] No such file or directory: ''
                   @ ''./cache/llm/http://arxiv.org/abs/2101.00001v1_comprehensive.json'')), world0)"
    by (simp add: analyzer_save_to_cache_def write_json_def name path_join_def analyzer0_def
          world0_def Let_def)
  have load: "fst (analyzer_load_from_cache analyzer0 no_repr (JStr arxiv_id) ''comprehensive'' world0)
                = Inr JNull"
    by (simp add: analyzer_load_from_cache_def world0_def)
  have pid: "paper_id_of arxiv_paper = JStr arxiv_id"
    by (simp add: paper_id_of_def arxiv_paper_def dict_get_def)
  from pid load show ?thesis by (simp add: save)
qed

text \<open>
  For \<open>analyze_paper\<close> this means that the analysis of an arXiv paper is lost: the model
  is called and answers, the write raises inside the \<open>try\<close>, and the call returns the
  error payload of the \<open>except Exception\<close> clause.
\<close>

lemma arxiv_analysis_lost:
  "error_shaped (entry_of arxiv_paper
                   (fst (analyze_paper analyzer0 lib0 arxiv_paper True (world0\<lparr>llm := llm_ok\<rparr>))))
   \<and> llm_calls (snd (analyze_paper analyzer0 lib0 arxiv_paper True (world0\<lparr>llm := llm_ok\<rparr>))) = 1
   \<and> files (snd (analyze_paper analyzer0 lib0 arxiv_paper True (world0\<lparr>llm := llm_ok\<rparr>))) = []"
proof -
  have strip: "strip_fences ''{}'' = ''{}''"
    by (simp add: strip_fences_def py_strip_def is_space_def startswith_def endswith_def)
  show ?thesis
    by (simp add: analyze_paper_def analyze_def comprehensive_def arxiv_paper_def arxiv_id_def
          analyzer_load_from_cache_def analyzer_save_to_cache_def write_json_def
          get_cache_path_def cache_name_def path_join_def paper_id_of_def dict_get_def
          dict_set_def call_openai_def on_error_def logger_def strip parent_of_def
          world0_def analyzer0_def lib0_def loads0_def strftime0_def no_repr_def
          llm_ok_def Let_def)
qed

text \<open>
  The collector's overwrite: in a cache directory whose entries have distinct paths, a
  second \<open>_save_to_cache\<close> under the same fingerprint returns, a read right after it gives
  the second payload, and the directory then holds exactly one entry under that
  fingerprint's path and still has distinct paths.
\<close>

lemma collector_overwrite:
  assumes "distinct (map fst (files w))" and "0 \<le> H"
  shows "let k = get_cache_key self query source;
             w1 = snd (collector_save_to_cache self k p1 w);
             w2 = snd (collector_save_to_cache self k p2 w1)
         in fst (collector_save_to_cache self k p2 w1) = Inr JNull
            \<and> fst (collector_load_from_cache self k H w2) = Inr p2
            \<and> length (filter (\<lambda>e. fst e = path_join (cache_dir self) (k @ ''.json'')) (files w2)) = 1
            \<and> distinct (map fst (files w2))"
proof -
  let ?k = "get_cache_key self query source"
  let ?path = "path_join (cache_dir self) (?k @ ''.json'')"
  let ?w1 = "snd (collector_save_to_cache self ?k p1 w)"
  let ?w2 = "snd (collector_save_to_cache self ?k p2 ?w1)"
  have ok: "plain_name (?k @ ''.json'')" by (rule cache_key_plain)
  have f1: "files ?w1 = AList.update ?path \<lparr>content = Doc p1, mtime = clock w\<rparr> (files w)"
    by (simp add: collector_save_ok [OF ok])
  have d1: "distinct (map fst (files ?w1))"
    unfolding f1 using assms(1) by (rule distinct_update)
  have f2: "files ?w2 = AList.update ?path \<lparr>content = Doc p2, mtime = clock ?w1\<rparr> (files ?w1)"
    by (simp add: collector_save_ok [OF ok])
  have c2: "clock ?w2 = clock ?w1"
    by (simp add: collector_save_ok [OF ok])
  have s2: "fst (collector_save_to_cache self ?k p2 ?w1) = Inr JNull"
    by (simp add: collector_save_ok [OF ok])
  have "map_of (files ?w2) ?path = Some \<lparr>content = Doc p2, mtime = clock ?w1\<rparr>"
    unfolding f2 by (rule map_of_written)
  from collector_load_doc [OF this, of H] assms(2)
  have l2: "fst (collector_load_from_cache self ?k H ?w2) = Inr p2"
    by (simp add: c2 timedelta_hours_def)
  have n2: "length (filter (\<lambda>e. fst e = ?path) (files ?w2)) = 1"
    unfolding f2 using d1 by (rule count_written)
  have d2: "distinct (map fst (files ?w2))"
    unfolding f2 using d1 by (rule distinct_update)
  from s2 l2 n2 d2 show ?thesis
    by (simp only: Let_def simp_thms)
qed

text \<open>The analyzer's overwrite, when the file name is plain.\<close>

lemma analyzer_overwrite:
  assumes "distinct (map fst (files w))"
    and ok: "plain_name (cache_name repr pid kind)"
  shows "let w1 = snd (analyzer_save_to_cache a repr pid kind p1 w);
             w2 = snd (analyzer_save_to_cache a repr pid kind p2 w1)
         in fst (analyzer_save_to_cache a repr pid kind p2 w1) = Inr JNull
            \<and> fst (analyzer_load_from_cache a repr pid kind w2) = Inr p2
            \<and> length (filter (\<lambda>e. fst e = get_cache_path a repr pid kind) (files w2)) = 1
            \<and> distinct (map fst (files w2))"
proof -
  let ?path = "get_cache_path a repr pid kind"
  let ?w1 = "snd (analyzer_save_to_cache a repr pid kind p1 w)"
  let ?w2 = "snd (analyzer_save_to_cache a repr pid kind p2 ?w1)"
  have f1: "files ?w1 = AList.update ?path \<lparr>content = Doc p1, mtime = clock w\<rparr> (files w)"
    by (simp add: analyzer_save_ok [OF ok])
  have d1: "distinct (map fst (files ?w1))"
    unfolding f1 using assms(1) by (rule distinct_update)
  have f2: "files ?w2 = AList.update ?path \<lparr>content = Doc p2, mtime = clock ?w1\<rparr> (files ?w1)"
    by (simp add: analyzer_save_ok [OF ok])
  have s2: "fst (analyzer_save_to_cache a repr pid kind p2 ?w1) = Inr JNull"
    by (simp add: analyzer_save_ok [OF ok])
  have "map_of (files ?w2) ?path = Some \<lparr>content = Doc p2, mtime = clock ?w1\<rparr>"
    unfolding f2 by (rule map_of_written)
  from analyzer_load_doc [OF this]
  have l2: "fst (analyzer_load_from_cache a repr pid kind ?w2) = Inr p2" by simp
  have n2: "length (filter (\<lambda>e. fst e = ?path) (files ?w2)) = 1"
    unfolding f2 using d1 by (rule count_written)
  have d2: "distinct (map fst (files ?w2))"
    unfolding f2 using d1 by (rule distinct_update)
  from s2 l2 n2 d2 show ?thesis
    by (simp only: Let_def simp_thms)
qed

text \<open>
  C6 fails in the code, by the same defect as C1: with the id of an arXiv paper both
  writes of the analyzer raise, no entry exists afterwards, and the read that follows
  returns \<open>None\<close>, not the second payload.
\<close>

theorem arxiv_overwrite_fails:
  "isl (fst (analyzer_save_to_cache analyzer0 no_repr (JStr arxiv_id) ''comprehensive''
               (JDict [(''version'', JInt 1)]) world0))
   \<and> isl (fst (analyzer_save_to_cache analyzer0 no_repr (JStr arxiv_id) ''comprehensive''
               (JDict [(''version'', JInt 2)])
               (snd (analyzer_save_to_cache analyzer0 no_repr (JStr arxiv_id) ''comprehensive''
                       (JDict [(''version'', JInt 1)]) world0))))
   \<and> files (snd (analyzer_save_to_cache analyzer0 no_repr (JStr arxiv_id) ''comprehensive''
               (JDict [(''version'', JInt 2)])
               (snd (analyzer_save_to_cache analyzer0 no_repr (JStr arxiv_id) ''comprehensive''
                       (JDict [(''version'', JInt 1)]) world0)))) = []
   \<and> fst (analyzer_load_from_cache analyzer0 no_repr (JStr arxiv_id) ''comprehensive''
            (snd (analyzer_save_to_cache analyzer0 no_repr (JStr arxiv_id) ''comprehensive''
               (JDict [(''version'', JInt 2)])
               (snd (analyzer_save_to_cache analyzer0 no_repr (JStr arxiv_id) ''comprehensive''
                       (JDict [(''version'', JInt 1)]) world0)))))
       = Inr JNull"
proof -
  have name: "cache_name no_repr (JStr arxiv_id) ''comprehensive''
                = ''http://arxiv.org/abs/2101.00001v1_comprehensive.json''"
    by (simp add: cache_name_def arxiv_id_def)
  have save: "analyzer_save_to_cache analyzer0 no_repr (JStr arxiv_id) ''comprehensive'' p world0
              = (Inl (FileNotFoundError (''[Errno 2] No such file or directory: ''
                   @ ''./cache/llm/http://arxiv.org/abs/2101.00001v1_comprehensive.json'')), world0)"
    for p
    by (simp add: analyzer_save_to_cache_def write_json_def name path_join_def analyzer0_def
          world0_def Let_def)
  have load: "fst (analyzer_load_from_cache analyzer0 no_repr (JStr arxiv_id) ''comprehensive'' world0)
                = Inr JNull"
    by (simp add: analyzer_load_from_cache_def world0_def)
  have empty: "files world0 = []" by (simp add: world0_def)
  from load empty show ?thesis by (simp add: save)
qed

section \<open>The claims about searching and analysing\<close>

lemma collector_load_doc_full:
  assumes "map_of (files w) (path_join (cache_dir self) (k @ ''.json''))
             = Some \<lparr>content = Doc p, mtime = T\<rparr>"
    and "clock w - T \<le> timedelta_hours H"
  shows "collector_load_from_cache self k H w = (Inr p, logger (''Loading from cache: '' @ k) w)"
  using assms by (simp add: collector_load_from_cache_def Let_def)

lemma search_key_plain: "plain_name (search_key self query limit fields_opt @ ''.json'')"
  unfolding search_key_def by (rule cache_key_plain)

lemma fetch_transport_error:
  assumes "0 < limit" and "http w (http_calls w) = Inl (RequestException m)"
  shows "fst (fetch_papers limit [] 0 w) = Inr []"
  using assms by (subst fetch_papers.simps) (simp add: Let_def)

text \<open>
  C9. On a cache miss on which the pagination loop ends without raising,
  \<open>search_semantic_scholar\<close> returns the list collected and leaves it in the cache
  under the search's fingerprint, stamped with the time of the write. From then on, for
  24 hours (the default age limit, which the search uses) and as long as the files stay
  as they are, the same search returns that list and makes no request. The list is
  empty when the first request fails with a transport error.
\<close>

theorem search_caches_whatever_collected:
  assumes miss: "collector_load_from_cache self (search_key self query limit fields_opt) 24 w
                   = (Inr JNull, w1)"
    and fetched: "fetch_papers limit [] 0 w1 = (Inr all_papers, w2)"
  shows "fst (search_semantic_scholar self query limit fields_opt w) = Inr (JList all_papers)
       \<and> map_of (files (snd (search_semantic_scholar self query limit fields_opt w)))
            (path_join (cache_dir self) (search_key self query limit fields_opt @ ''.json''))
           = Some \<lparr>content = Doc (JList all_papers), mtime = clock w2\<rparr>
       \<and> clock (snd (search_semantic_scholar self query limit fields_opt w)) = clock w2
       \<and> (\<forall>w4. files w4 = files (snd (search_semantic_scholar self query limit fields_opt w))
                \<and> clock w4 - clock w2 \<le> timedelta_hours 24
             \<longrightarrow> fst (search_semantic_scholar self query limit fields_opt w4) = Inr (JList all_papers)
                 \<and> http_calls (snd (search_semantic_scholar self query limit fields_opt w4))
                     = http_calls w4)
       \<and> (0 < limit \<and> (\<exists>m. http w1 (http_calls w1) = Inl (RequestException m))
             \<longrightarrow> all_papers = [])"
proof -
  let ?k = "search_key self query limit fields_opt"
  let ?path = "path_join (cache_dir self) (?k @ ''.json'')"
  let ?f = "\<lparr>content = Doc (JList all_papers), mtime = clock w2\<rparr>"
  have ok: "plain_name (?k @ ''.json'')" by (rule search_key_plain)
  have run: "search_semantic_scholar self query limit fields_opt w =
               (Inr (JList all_papers),
                logger (''Collected '' @ digits (length all_papers) @ '' papers from Semantic Scholar'')
                  (logger (''Saved to cache: '' @ ?k)
                     (w2\<lparr>files := AList.update ?path ?f (files w2)\<rparr>)))"
    by (simp add: search_semantic_scholar_def Let_def miss fetched collector_save_ok [OF ok])
  have stored: "map_of (files (snd (search_semantic_scholar self query limit fields_opt w))) ?path
                  = Some ?f"
    by (simp add: run map_of_written)
  have again: "fst (search_semantic_scholar self query limit fields_opt w4) = Inr (JList all_papers)
               \<and> http_calls (snd (search_semantic_scholar self query limit fields_opt w4))
                   = http_calls w4"
    if h: "files w4 = files (snd (search_semantic_scholar self query limit fields_opt w))
             \<and> clock w4 - clock w2 \<le> timedelta_hours 24" for w4 :: world
  proof -
    from h stored have m: "map_of (files w4) ?path = Some ?f" by simp
    from h have c: "clock w4 - clock w2 \<le> timedelta_hours 24" by simp
    show ?thesis
      by (simp add: search_semantic_scholar_def Let_def collector_load_doc_full [OF m c])
  qed
  have empty: "all_papers = []"
    if t: "0 < limit \<and> (\<exists>m. http w1 (http_calls w1) = Inl (RequestException m))"
  proof -
    from t obtain m where "http w1 (http_calls w1) = Inl (RequestException m)" by blast
    with t have "fst (fetch_papers limit [] 0 w1) = Inr []"
      by (simp add: fetch_transport_error)
    with fetched show ?thesis by simp
  qed
  have now: "clock (snd (search_semantic_scholar self query limit fields_opt w)) = clock w2"
    by (simp add: run)
  from run stored now again empty show ?thesis by simp
qed

lemma fetch_one_page:
  "fst (fetch_papers 50 [] 0 (world0\<lparr>http := http_one_page\<rparr>))
     = Inr [JDict [(''paperId'', JStr ''p1'')]]"
  apply (subst fetch_papers.simps)
  apply (simp add: world0_def http_one_page_def dict_get_def Let_def logger_def)
  apply (subst fetch_papers.simps)
  apply (simp add: http_one_page_def logger_def)
  done

theorem search_caches_whatever_collected_witness:
  "fst (search_semantic_scholar collector0 ''microservice architecture'' 50 None world0)
     = Inr (JList [])
   \<and> fst (search_semantic_scholar collector0 ''microservice architecture'' 50 None
          (snd (search_semantic_scholar collector0 ''microservice architecture'' 50 None world0)))
     = Inr (JList [])
   \<and> http_calls (snd (search_semantic_scholar collector0 ''microservice architecture'' 50 None
          (snd (search_semantic_scholar collector0 ''microservice architecture'' 50 None world0))))
     = http_calls (snd (search_semantic_scholar collector0 ''microservice architecture'' 50 None world0))
   \<and> fst (search_semantic_scholar collector0 ''microservice architecture'' 50 None
          (snd (search_semantic_scholar collector0 ''microservice architecture'' 50 None
                  (world0\<lparr>http := http_one_page\<rparr>))))
     = Inr (JList [JDict [(''paperId'', JStr ''p1'')]])
   \<and> http_calls (snd (search_semantic_scholar collector0 ''microservice architecture'' 50 None
          (snd (search_semantic_scholar collector0 ''microservice architecture'' 50 None
                  (world0\<lparr>http := http_one_page\<rparr>)))))
     = http_calls (snd (search_semantic_scholar collector0 ''microservice architecture'' 50 None
                  (world0\<lparr>http := http_one_page\<rparr>)))"
proof -
  let ?k = "search_key collector0 ''microservice architecture'' 50 None"
  let ?s = "search_semantic_scholar collector0 ''microservice architecture'' 50 None"
  let ?w = "world0\<lparr>http := http_one_page\<rparr>"
  have miss: "collector_load_from_cache collector0 ?k 24 world0 = (Inr JNull, world0)"
    by (simp add: collector_load_from_cache_def world0_def)
  have "fst (fetch_papers 50 [] 0 world0) = Inr []"
    by (rule fetch_transport_error [where m = "''connection refused''"])
       (simp_all add: world0_def no_http_def)
  then have fetched: "fetch_papers 50 [] 0 world0 = (Inr [], snd (fetch_papers 50 [] 0 world0))"
    by (simp add: prod_eq_iff)
  note r = search_caches_whatever_collected [OF miss fetched]
  from r have a: "fst (?s world0) = Inr (JList [])" by (rule conjunct1)
  note c = r [THEN conjunct2, THEN conjunct2, THEN conjunct1]
  have "\<forall>w4. files w4 = files (snd (?s world0))
                  \<and> clock w4 - clock (snd (fetch_papers 50 [] 0 world0)) \<le> timedelta_hours 24
               \<longrightarrow> fst (?s w4) = Inr (JList []) \<and> http_calls (snd (?s w4)) = http_calls w4"
    by (rule r [THEN conjunct2, THEN conjunct2, THEN conjunct2, THEN conjunct1])
  then have b: "fst (?s (snd (?s world0))) = Inr (JList [])
             \<and> http_calls (snd (?s (snd (?s world0)))) = http_calls (snd (?s world0))"
    using c by (simp add: timedelta_hours_def)
  have miss': "collector_load_from_cache collector0 ?k 24 ?w = (Inr JNull, ?w)"
    by (simp add: collector_load_from_cache_def world0_def)
  have fetched': "fetch_papers 50 [] 0 ?w
                    = (Inr [JDict [(''paperId'', JStr ''p1'')]], snd (fetch_papers 50 [] 0 ?w))"
    using fetch_one_page by (simp add: prod_eq_iff)
  note r' = search_caches_whatever_collected [OF miss' fetched']
  note c' = r' [THEN conjunct2, THEN conjunct2, THEN conjunct1]
  have "\<forall>w4. files w4 = files (snd (?s ?w))
                  \<and> clock w4 - clock (snd (fetch_papers 50 [] 0 ?w)) \<le> timedelta_hours 24
               \<longrightarrow> fst (?s w4) = Inr (JList [JDict [(''paperId'', JStr ''p1'')]])
                  \<and> http_calls (snd (?s w4)) = http_calls w4"
    by (rule r' [THEN conjunct2, THEN conjunct2, THEN conjunct2, THEN conjunct1])
  then have b': "fst (?s (snd (?s ?w))) = Inr (JList [JDict [(''paperId'', JStr ''p1'')]])
             \<and> http_calls (snd (?s (snd (?s ?w)))) = http_calls (snd (?s ?w))"
    using c' by (simp add: timedelta_hours_def)
  from a b b' show ?thesis by simp
qed

lemma analyzer_load_logs:
  "files (snd (analyzer_load_from_cache a repr pid kind w)) = files w
   \<and> llm (snd (analyzer_load_from_cache a repr pid kind w)) = llm w
   \<and> llm_calls (snd (analyzer_load_from_cache a repr pid kind w)) = llm_calls w
   \<and> clock (snd (analyzer_load_from_cache a repr pid kind w)) = clock w"
  by (simp add: analyzer_load_from_cache_def Let_def split: option.split sum.split exn.split)

lemma paper_id_unknown:
  "map_of paper ''paperId'' = None \<Longrightarrow> map_of paper ''id'' = None
     \<Longrightarrow> paper_id_of paper = JStr ''unknown''"
  by (simp add: paper_id_of_def dict_get_def)

lemma dict_set_nonempty: "dict_set d k v \<noteq> []"
  by (cases d) (simp_all add: dict_set_def)

lemma kind_comprehensive: "v_kind comprehensive = ''comprehensive''"
  by (simp add: comprehensive_def)

lemma kind_mirofish: "v_kind mirofish = ''mirofish''"
  by (simp add: mirofish_def)

text \<open>
  Two papers with the same identifier share a cache slot: once the analysis of the first
  is stored, the analysis of the second returns it and does not call the model.
\<close>

lemma shared_slot:
  assumes id1: "paper_id_of p1 = pid" and id2: "paper_id_of p2 = pid"
    and ok: "plain_name (cache_name (py_repr lib) pid (v_kind v))"
    and miss: "fst (analyzer_load_from_cache self (py_repr lib) pid (v_kind v) w) = Inr cached"
      "\<not> truthy cached"
    and reply: "llm w (llm_calls w) = Inr (Some reply)"
    and parsed: "json_loads lib (strip_fences reply) = Some (JDict d)"
  shows "fst (analyze v self lib p1 True w)
           = Inr (JDict (dict_set (dict_set d ''paper_id'' pid)
                           ''analyzed_at'' (JStr (strftime lib (clock w)))))
       \<and> (\<forall>w2. files w2 = files (snd (analyze v self lib p1 True w))
             \<longrightarrow> fst (analyze v self lib p2 True w2) = fst (analyze v self lib p1 True w)
                 \<and> llm_calls (snd (analyze v self lib p2 True w2)) = llm_calls w2)"
proof -
  let ?repr = "py_repr lib"
  let ?load = "analyzer_load_from_cache self ?repr pid (v_kind v) w"
  let ?a = "JDict (dict_set (dict_set d ''paper_id'' pid)
                     ''analyzed_at'' (JStr (strftime lib (clock w))))"
  let ?path = "get_cache_path self ?repr pid (v_kind v)"
  let ?msg = "v_info v @ py_str ?repr (dict_get p1 ''title'' (JStr ''No title''))"
  obtain w1 where l: "?load = (Inr cached, w1)"
    using miss(1) by (cases ?load) simp
  from analyzer_load_logs [of self ?repr pid "v_kind v" w]
  have same: "files w1 = files w" "llm w1 = llm w" "llm_calls w1 = llm_calls w" "clock w1 = clock w"
    by (simp_all add: l)
  have call: "call_openai self (logger ?msg w1)
                = (Inr (Some reply), (logger ?msg w1)\<lparr>llm_calls := Suc (llm_calls w)\<rparr>)"
    using reply same by (simp add: call_openai_def Let_def)
  have save: "analyzer_save_to_cache self ?repr pid (v_kind v) ?a
                ((logger ?msg w1)\<lparr>llm_calls := Suc (llm_calls w)\<rparr>)
              = (Inr JNull,
                 logger (''Saved analysis to cache: '' @ ?path)
                   ((logger ?msg w1)
                      \<lparr>llm_calls := Suc (llm_calls w),
                       files := AList.update ?path \<lparr>content = Doc ?a, mtime = clock w\<rparr> (files w)\<rparr>))"
    using same by (simp add: analyzer_save_ok [OF ok])
  have first: "analyze v self lib p1 True w =
                 (Inr ?a,
                  logger (''Saved analysis to cache: '' @ ?path)
                    ((logger ?msg w1)
                       \<lparr>llm_calls := Suc (llm_calls w),
                        files := AList.update ?path \<lparr>content = Doc ?a, mtime = clock w\<rparr> (files w)\<rparr>))"
    unfolding analyze_def Let_def id1
    using miss(2) same(4) by (simp add: l call parsed save)
  have again: "fst (analyze v self lib p2 True w2) = fst (analyze v self lib p1 True w)
               \<and> llm_calls (snd (analyze v self lib p2 True w2)) = llm_calls w2"
    if h: "files w2 = files (snd (analyze v self lib p1 True w))" for w2 :: world
  proof -
    from h have "map_of (files w2) ?path = Some \<lparr>content = Doc ?a, mtime = clock w\<rparr>"
      by (simp add: first map_of_written)
    from analyzer_load_doc [OF this]
    have "analyze v self lib p2 True w2
            = (Inr ?a, logger (''Loading cached analysis: '' @ ?path) w2)"
      unfolding analyze_def Let_def id2
      by (simp add: dict_set_nonempty)
    then show ?thesis by (simp add: first)
  qed
  from first again show ?thesis by simp
qed

text \<open>
  C10. A paper dictionary with neither a \<open>paperId\<close> nor an \<open>id\<close> key gets the
  identifier \<open>'unknown'\<close>. When \<open>analyze_paper\<close> (with the cache in use) finds nothing
  usable under that identifier and the model's reply parses to a dictionary, the call
  returns the analysis and stores it; from then on, as long as the files stay as they
  are, \<open>analyze_paper\<close> on any other such paper returns that first paper's analysis and
  does not call the model.
\<close>

theorem unknown_id_shares_slot:
  assumes p1: "map_of p1 ''paperId'' = None" "map_of p1 ''id'' = None"
    and p2: "map_of p2 ''paperId'' = None" "map_of p2 ''id'' = None"
    and miss: "fst (analyzer_load_from_cache self (py_repr lib) (JStr ''unknown'') ''comprehensive'' w)
                 = Inr cached" "\<not> truthy cached"
    and reply: "llm w (llm_calls w) = Inr (Some reply)"
    and parsed: "json_loads lib (strip_fences reply) = Some (JDict d)"
  shows "paper_id_of p1 = JStr ''unknown'' \<and> paper_id_of p2 = JStr ''unknown''
       \<and> fst (analyze_paper self lib p1 True w)
           = Inr (JDict (dict_set (dict_set d ''paper_id'' (JStr ''unknown''))
                           ''analyzed_at'' (JStr (strftime lib (clock w)))))
       \<and> (\<forall>w2. files w2 = files (snd (analyze_paper self lib p1 True w))
             \<longrightarrow> fst (analyze_paper self lib p2 True w2) = fst (analyze_paper self lib p1 True w)
                 \<and> llm_calls (snd (analyze_paper self lib p2 True w2)) = llm_calls w2)"
proof -
  have id1: "paper_id_of p1 = JStr ''unknown''" using p1 by (rule paper_id_unknown)
  have id2: "paper_id_of p2 = JStr ''unknown''" using p2 by (rule paper_id_unknown)
  have ok: "plain_name (cache_name (py_repr lib) (JStr ''unknown'') (v_kind comprehensive))"
    by (simp add: cache_name_def kind_comprehensive plain_name_def)
  have m: "fst (analyzer_load_from_cache self (py_repr lib) (JStr ''unknown'')
                  (v_kind comprehensive) w) = Inr cached"
    using miss(1) by (simp only: kind_comprehensive)
  from shared_slot [OF id1 id2 ok m miss(2) reply parsed] id1 id2
  show ?thesis by (simp add: analyze_paper_def)
qed

theorem unknown_id_shares_slot_witness:
  "fst (analyze_paper analyzer0 lib0 [(''title'', JStr ''B'')] True
          (snd (analyze_paper analyzer0 lib0 [(''title'', JStr ''A'')] True
                  (world0\<lparr>llm := llm_ok\<rparr>))))
     = Inr (JDict [(''paper_id'', JStr ''unknown''), (''analyzed_at'', JStr ''2024-01-01 00:00:00'')])
   \<and> llm_calls (snd (analyze_paper analyzer0 lib0 [(''title'', JStr ''B'')] True
          (snd (analyze_paper analyzer0 lib0 [(''title'', JStr ''A'')] True
                  (world0\<lparr>llm := llm_ok\<rparr>)))))
     = llm_calls (snd (analyze_paper analyzer0 lib0 [(''title'', JStr ''A'')] True
                  (world0\<lparr>llm := llm_ok\<rparr>)))"
proof -
  let ?w = "world0\<lparr>llm := llm_ok\<rparr>"
  let ?A = "[(''title'', JStr ''A'')] :: paper"
  let ?B = "[(''title'', JStr ''B'')] :: paper"
  have a1: "map_of ?A ''paperId'' = None" and a2: "map_of ?A ''id'' = None"
    and b1: "map_of ?B ''paperId'' = None" and b2: "map_of ?B ''id'' = None"
    by simp_all
  have miss: "fst (analyzer_load_from_cache analyzer0 (py_repr lib0) (JStr ''unknown'')
                     ''comprehensive'' ?w) = Inr JNull"
    by (simp add: analyzer_load_from_cache_def world0_def)
  have falsy: "\<not> truthy JNull" by simp
  have reply: "llm ?w (llm_calls ?w) = Inr (Some ''{}'')"
    by (simp add: llm_ok_def)
  have strip: "strip_fences ''{}'' = ''{}''"
    by (simp add: strip_fences_def py_strip_def is_space_def startswith_def endswith_def)
  have parsed: "json_loads lib0 (strip_fences ''{}'') = Some (JDict [])"
    by (simp add: strip lib0_def loads0_def)
  note r = unknown_id_shares_slot [OF a1 a2 b1 b2 miss falsy reply parsed]
  have first: "fst (analyze_paper analyzer0 lib0 ?A True ?w)
          = Inr (JDict [(''paper_id'', JStr ''unknown''), (''analyzed_at'', JStr ''2024-01-01 00:00:00'')])"
    using r [THEN conjunct2, THEN conjunct2, THEN conjunct1]
    by (simp add: dict_set_def lib0_def strftime0_def)
  have "fst (analyze_paper analyzer0 lib0 ?B True (snd (analyze_paper analyzer0 lib0 ?A True ?w)))
          = fst (analyze_paper analyzer0 lib0 ?A True ?w)
        \<and> llm_calls (snd (analyze_paper analyzer0 lib0 ?B True
                             (snd (analyze_paper analyzer0 lib0 ?A True ?w))))
          = llm_calls (snd (analyze_paper analyzer0 lib0 ?A True ?w))"
    by (rule r [THEN conjunct2, THEN conjunct2, THEN conjunct2, rule_format]) simp
  with first show ?thesis by simp
qed

section \<open>The batch\<close>

text \<open>
  With a delay that is not negative, an item appends exactly one entry: what its
  analysis returned, or the error entry for what it raised.
\<close>

lemma batch_loop_step:
  assumes "0 \<le> delay"
    and run: "run_item self lib kind paper
                (logger (''Analyzing paper '' @ digits i @ ''/'' @ digits n) w) = (r, w1)"
  shows "batch_loop self lib kind delay n i (paper # rest) results w
           = batch_loop self lib kind delay n (Suc i) rest (results @ [entry_of paper r])
               (case r of
                  Inl e \<Rightarrow> logger (''Failed to analyze paper '' @ digits i @ '': '' @ str_exn e) w1
                | Inr result \<Rightarrow> if i < n then w1\<lparr>clock := clock w1 + delay\<rparr> else w1)"
proof (cases r)
  case (Inl e)
  show ?thesis using run by (simp add: Inl)
next
  case (Inr result)
  have sl: "sleep delay w1 = Inr (w1\<lparr>clock := clock w1 + delay\<rparr>)"
    using assms(1) by (simp add: sleep_def)
  show ?thesis using run by (simp add: Inr sl)
qed

lemma batch_loop_length:
  assumes "0 \<le> delay"
  shows "length (fst (batch_loop self lib kind delay n i papers results w))
           = length results + length papers"
proof (induction papers arbitrary: i results w)
  case Nil
  show ?case by simp
next
  case (Cons paper rest)
  obtain r w1 where run: "run_item self lib kind paper
                (logger (''Analyzing paper '' @ digits i @ ''/'' @ digits n) w) = (r, w1)"
    by (cases "run_item self lib kind paper
                (logger (''Analyzing paper '' @ digits i @ ''/'' @ digits n) w)")
  show ?case
    by (simp only: batch_loop_step [OF assms run] Cons.IH) simp
qed

lemma batch_length:
  assumes "0 \<le> delay"
  shows "length (fst (batch_analyze self lib papers analysis_type delay w)) = length papers"
  by (simp add: batch_analyze_def batch_loop_length [OF assms])

text \<open>The error entry of the batch is error-shaped, and so is what an analysis returns
  when the model call fails with a transport error on a cache miss.\<close>

lemma error_entry_shaped: "error_shaped (entry_of paper (Inl e))"
  by (simp add: error_entry_def)

lemma transport_error_payload:
  assumes "fst (analyzer_load_from_cache self (py_repr lib) (paper_id_of paper) (v_kind v) w)
             = Inr cached"
    and "\<not> truthy cached"
    and "llm w (llm_calls w) = Inl e"
    and "\<forall>m. e \<noteq> JSONDecodeError m"
  shows "fst (analyze v self lib paper True w) = Inr (JDict [(''error'', JStr (str_exn e))])"
proof -
  let ?load = "analyzer_load_from_cache self (py_repr lib) (paper_id_of paper) (v_kind v) w"
  let ?msg = "v_info v @ py_str (py_repr lib) (dict_get paper ''title'' (JStr ''No title''))"
  obtain w1 where l: "?load = (Inr cached, w1)"
    using assms(1) by (cases ?load) simp
  from analyzer_load_logs [of self "py_repr lib" "paper_id_of paper" "v_kind v" w]
  have same: "llm w1 = llm w" "llm_calls w1 = llm_calls w"
    by (simp_all add: l)
  have call: "fst (call_openai self (logger ?msg w1)) = Inl e"
    using assms(3) same by (simp add: call_openai_def Let_def)
  obtain w2 where c: "call_openai self (logger ?msg w1) = (Inl e, w2)"
    using call by (cases "call_openai self (logger ?msg w1)") simp
  have "fst (on_error v e None w2) = Inr (JDict [(''error'', JStr (str_exn e))])"
    using assms(4) by (cases e) (simp_all add: on_error_def)
  then show ?thesis
    unfolding analyze_def Let_def using assms(2) by (simp add: l c)
qed

text \<open>The scenario of the specification: five papers, the model call of the third fails
  with a transport error, the delay is one second.\<close>

lemma batch_third_fails:
  "fst (batch_analyze analyzer0 lib0 papers5 ''comprehensive'' 1000000
          (world0\<lparr>llm := llm_third_fails\<rparr>))
     = [JDict [(''paper_id'', JStr ''p1''), (''analyzed_at'', JStr ''2024-01-01 00:00:00'')],
        JDict [(''paper_id'', JStr ''p2''), (''analyzed_at'', JStr ''2024-01-01 00:00:00'')],
        JDict [(''error'', JStr ''Connection error.'')],
        JDict [(''paper_id'', JStr ''p4''), (''analyzed_at'', JStr ''2024-01-01 00:00:00'')],
        JDict [(''paper_id'', JStr ''p5''), (''analyzed_at'', JStr ''2024-01-01 00:00:00'')]]"
proof -
  have strip: "strip_fences ''{}'' = ''{}''"
    by (simp add: strip_fences_def py_strip_def is_space_def startswith_def endswith_def)
  show ?thesis
    by (simp add: batch_analyze_def papers5_def run_item_def analyze_paper_def analyze_def
          comprehensive_def
          analyzer_load_from_cache_def analyzer_save_to_cache_def write_json_def
          get_cache_path_def cache_name_def path_join_def paper_id_of_def dict_get_def
          dict_set_def call_openai_def on_error_def sleep_def logger_def strip base_of_def
          world0_def analyzer0_def lib0_def loads0_def strftime0_def no_repr_def
          llm_third_fails_def Let_def)
qed

text \<open>
  C8 fails in the code. The result is appended inside the \<open>try\<close> before
  \<open>time.sleep(delay)\<close>; with a negative delay the sleep raises \<open>ValueError\<close>, and the
  \<open>except\<close> clause appends an error entry for an item whose result is already in the
  list. Two papers, both analysed without error, give three entries.
\<close>

theorem negative_delay_extra_entry:
  "fst (batch_analyze analyzer0 lib0 papers2 ''comprehensive'' (- 1000000)
          (world0\<lparr>llm := llm_ok\<rparr>))
     = [JDict [(''paper_id'', JStr ''p1''), (''analyzed_at'', JStr ''2024-01-01 00:00:00'')],
        JDict [(''paper_id'', JStr ''p1''), (''error'', JStr ''sleep length must be non-negative'')],
        JDict [(''paper_id'', JStr ''p2''), (''analyzed_at'', JStr ''2024-01-01 00:00:00'')]]
   \<and> length papers2 = 2
   \<and> length (fst (batch_analyze analyzer0 lib0 papers2 ''comprehensive'' (- 1000000)
                (world0\<lparr>llm := llm_ok\<rparr>))) = 3"
proof -
  have strip: "strip_fences ''{}'' = ''{}''"
    by (simp add: strip_fences_def py_strip_def is_space_def startswith_def endswith_def)
  have run: "fst (batch_analyze analyzer0 lib0 papers2 ''comprehensive'' (- 1000000)
          (world0\<lparr>llm := llm_ok\<rparr>))
     = [JDict [(''paper_id'', JStr ''p1''), (''analyzed_at'', JStr ''2024-01-01 00:00:00'')],
        JDict [(''paper_id'', JStr ''p1''), (''error'', JStr ''sleep length must be non-negative'')],
        JDict [(''paper_id'', JStr ''p2''), (''analyzed_at'', JStr ''2024-01-01 00:00:00'')]]"
    by (simp add: batch_analyze_def papers2_def run_item_def analyze_paper_def analyze_def
          comprehensive_def error_entry_def
          analyzer_load_from_cache_def analyzer_save_to_cache_def write_json_def
          get_cache_path_def cache_name_def path_join_def paper_id_of_def dict_get_def
          dict_set_def call_openai_def on_error_def sleep_def logger_def strip base_of_def
          world0_def analyzer0_def lib0_def loads0_def strftime0_def no_repr_def
          llm_ok_def Let_def)
  have len: "length papers2 = 2" by (simp add: papers2_def)
  show ?thesis by (simp add: run len)
qed

end
